theory Spec2Isabelle
  imports Complex_Main "HOL-Library.Word"
begin

unbundle bit_operations_syntax

section \<open>The differential drive of kobuki core (src/driver/diff_drive.cpp)\<close>

text \<open>
  Modelling conventions.
  \<^item> \<open>uint16_t\<close>, \<open>unsigned short\<close> and \<open>short\<close> are \<open>16 word\<close>; \<open>uint\<close> reads a word
    as unsigned, \<open>sint\<close> as two's complement.
  \<^item> A \<open>double\<close> that holds a finite value is a \<open>real\<close>: rounding is not modelled, and
    \<open>double\<close> literals (\<open>0.1\<close>, \<open>0.0001\<close>, \<open>0.485\<close>) stand for the decimal fractions
    they are written as; a \<open>float\<close> literal stands for the value of the \<open>float\<close>. A division whose divisor can be \<open>0.0\<close> is \<open>div_double\<close>, whose
    result \<open>None\<close> stands for the non-finite value (an infinity or NaN) that IEEE
    division by zero produces.
  \<^item> The members of the class are the fields of the record \<open>DiffDrive\<close>; a member
    function takes the object and returns the updated one. The two mutexes are taken and
    released around each body and have no role in a sequential model; the writes to
    \<open>std::cout\<close> are not modelled.
  \<^item> \<open>init_l\<close> and \<open>init_r\<close> are \<open>static\<close> locals of \<open>DiffDrive::update\<close>: one copy
    for the whole process, shared by every object. They are the record \<open>statics\<close>,
    threaded through \<open>update\<close> beside the object.
\<close>

subsection \<open>Data\<close>

type_synonym pose = "real \<times> real \<times> real"

record statics =
  init_l :: bool
  init_r :: bool

record DiffDrive =
  last_timestamp :: "16 word"
  last_velocity_left :: real
  last_velocity_right :: real
  last_diff_time :: real
  last_tick_left :: "16 word"
  last_tick_right :: "16 word"
  last_rad_left :: real
  last_rad_right :: real
  point_velocity :: "real list"
  radius :: real
  speed :: real
  bias :: real
  wheel_radius :: real
  tick_to_rad :: real

text \<open>The statics at program start: \<open>static bool init_l = false; static bool init_r = false;\<close>\<close>

definition statics_start :: statics where
  "statics_start = \<lparr> init_l = False, init_r = False \<rparr>"

text \<open>
  The constructor. Its initialiser list names neither \<open>last_timestamp\<close> nor
  \<open>last_diff_time\<close>, so these two members hold whatever their storage held; the two
  arguments are those values (both \<open>0\<close> for an object of static storage duration, which
  is zero-initialised before the constructor runs). \<open>tick_to_rad\<close> is initialised with
  the single-precision literal \<open>0.00071674029f\<close>, the nearest \<open>float\<close> to that
  decimal, which is exactly \<open>384797 / 2 ^ 29 = 384797 / 536870912\<close>.
\<close>

definition DiffDrive_new :: "16 word \<Rightarrow> real \<Rightarrow> DiffDrive" where
  "DiffDrive_new ts0 dt0 =
     \<lparr> last_timestamp = ts0,
       last_velocity_left = 0,
       last_velocity_right = 0,
       last_diff_time = dt0,
       last_tick_left = 0,
       last_tick_right = 0,
       last_rad_left = 0,
       last_rad_right = 0,
       point_velocity = [0, 0],
       radius = 0,
       speed = 0,
       bias = 485 / 1000,
       wheel_radius = 205 / 1000,
       tick_to_rad = 384797 / 536870912 \<rparr>"

subsection \<open>Arithmetic of the source\<close>

text \<open>
  \<open>(double)(short)((curr - last) & 0xffff)\<close> on two \<open>unsigned short\<close>s: both are
  promoted to \<open>int\<close>, the difference is masked to its low 16 bits and converted to
  \<open>short\<close>; the conversion to \<open>double\<close> is exact. The value is kept as an \<open>int\<close>.
\<close>

definition diff_ticks :: "16 word \<Rightarrow> 16 word \<Rightarrow> int" where
  "diff_ticks cur prv = sint (word_of_int ((uint cur - uint prv) AND 0xffff) :: 16 word)"

text \<open>A \<open>double\<close> division whose divisor may be zero.\<close>

definition div_double :: "real \<Rightarrow> real \<Rightarrow> real option" where
  "div_double x y = (if y = 0 then None else Some (x / y))"

text \<open>\<open>static_cast<short>\<close> of a \<open>double\<close> discards the fractional part.\<close>

definition truncate_double :: "real \<Rightarrow> int" where
  "truncate_double v = (if 0 \<le> v then \<lfloor>v\<rfloor> else \<lceil>v\<rceil>)"

definition SHRT_MAX :: "16 word" where
  "SHRT_MAX = 32767"

definition SHRT_MIN :: "16 word" where
  "SHRT_MIN = - 32768"

definition bound :: "real \<Rightarrow> 16 word" where
  "bound v =
     (if v > real_of_int (sint SHRT_MAX) then SHRT_MAX
      else if v < real_of_int (sint SHRT_MIN) then SHRT_MIN
      else word_of_int (truncate_double v))"

subsection \<open>Odometry\<close>

text \<open>The values of the locals \<open>left_diff_ticks\<close> and \<open>right_diff_ticks\<close> of \<open>update\<close>:
  an unset flag first copies the current tick into the baseline.\<close>

definition left_diff_ticks :: "statics \<Rightarrow> DiffDrive \<Rightarrow> 16 word \<Rightarrow> int" where
  "left_diff_ticks g d left_encoder =
     diff_ticks left_encoder (if \<not> init_l g then left_encoder else last_tick_left d)"

definition right_diff_ticks :: "statics \<Rightarrow> DiffDrive \<Rightarrow> 16 word \<Rightarrow> int" where
  "right_diff_ticks g d right_encoder =
     diff_ticks right_encoder (if \<not> init_r g then right_encoder else last_tick_right d)"

text \<open>
  \<open>DiffDrive::update\<close>. The argument \<open>kin\<close> is
  \<open>diff_drive_kinematics.poseUpdateFromWheelDifferential\<close>, a function of the ecl
  library that is not part of this repository. The result is the statics, the object,
  \<open>pose_update\<close> and the three components of \<open>pose_update_rates\<close>.
\<close>

definition update ::
  "(real \<Rightarrow> real \<Rightarrow> pose) \<Rightarrow> statics \<Rightarrow> DiffDrive \<Rightarrow> 16 word \<Rightarrow> 16 word \<Rightarrow> 16 word
     \<Rightarrow> statics \<times> DiffDrive \<times> pose \<times> (real option \<times> real option \<times> real option)" where
  "update kin g d time_stamp left_encoder right_encoder =
     (let ld = real_of_int (left_diff_ticks g d left_encoder);
          d1 = d\<lparr> last_tick_left := left_encoder,
                  last_rad_left := last_rad_left d + tick_to_rad d * ld \<rparr>;
          rd = real_of_int (right_diff_ticks g d1 right_encoder);
          d2 = d1\<lparr> last_tick_right := right_encoder,
                    last_rad_right := last_rad_right d1 + tick_to_rad d1 * rd \<rparr>;
          pose_update = kin (tick_to_rad d2 * ld) (tick_to_rad d2 * rd);
          d3 = (if time_stamp \<noteq> last_timestamp d2
                then let dt = real_of_int (diff_ticks time_stamp (last_timestamp d2)) / 1000
                     in d2\<lparr> last_diff_time := dt,
                            last_timestamp := time_stamp,
                            last_velocity_left := (tick_to_rad d2 * ld) / dt,
                            last_velocity_right := (tick_to_rad d2 * rd) / dt \<rparr>
                else d2)
      in (g\<lparr> init_l := True, init_r := True \<rparr>,
          d3,
          pose_update,
          (div_double (fst pose_update) (last_diff_time d3),
           div_double (fst (snd pose_update)) (last_diff_time d3),
           div_double (snd (snd pose_update)) (last_diff_time d3))))"

text \<open>The four results of \<open>update\<close>, one at a time.\<close>

definition update_statics ::
  "(real \<Rightarrow> real \<Rightarrow> pose) \<Rightarrow> statics \<Rightarrow> DiffDrive \<Rightarrow> 16 word \<Rightarrow> 16 word \<Rightarrow> 16 word \<Rightarrow> statics" where
  "update_statics kin g d ts l r = fst (update kin g d ts l r)"

definition update_state ::
  "(real \<Rightarrow> real \<Rightarrow> pose) \<Rightarrow> statics \<Rightarrow> DiffDrive \<Rightarrow> 16 word \<Rightarrow> 16 word \<Rightarrow> 16 word \<Rightarrow> DiffDrive" where
  "update_state kin g d ts l r = fst (snd (update kin g d ts l r))"

definition update_pose ::
  "(real \<Rightarrow> real \<Rightarrow> pose) \<Rightarrow> statics \<Rightarrow> DiffDrive \<Rightarrow> 16 word \<Rightarrow> 16 word \<Rightarrow> 16 word \<Rightarrow> pose" where
  "update_pose kin g d ts l r = fst (snd (snd (update kin g d ts l r)))"

definition update_rates ::
  "(real \<Rightarrow> real \<Rightarrow> pose) \<Rightarrow> statics \<Rightarrow> DiffDrive \<Rightarrow> 16 word \<Rightarrow> 16 word \<Rightarrow> 16 word
     \<Rightarrow> real option \<times> real option \<times> real option" where
  "update_rates kin g d ts l r = snd (snd (snd (update kin g d ts l r)))"

definition reset :: "DiffDrive \<Rightarrow> DiffDrive" where
  "reset d = d\<lparr> last_rad_left := 0,
               last_rad_right := 0,
               last_velocity_left := 0,
               last_velocity_right := 0 \<rparr>"

text \<open>\<open>getWheelJointStates\<close>: left angle, left rate, right angle, right rate.\<close>

definition getWheelJointStates :: "DiffDrive \<Rightarrow> real \<times> real \<times> real \<times> real" where
  "getWheelJointStates d =
     (last_rad_left d, last_velocity_left d, last_rad_right d, last_velocity_right d)"

subsection \<open>Velocity commands\<close>

definition setVelocityCommands :: "DiffDrive \<Rightarrow> real \<Rightarrow> real \<Rightarrow> DiffDrive" where
  "setVelocityCommands d vx wz = d\<lparr> point_velocity := [vx, wz] \<rparr>"

definition pointVelocity :: "DiffDrive \<Rightarrow> real list" where
  "pointVelocity d = point_velocity d"

definition epsilon :: real where
  "epsilon = 1 / 10000"

text \<open>The local \<open>vx_\<close> after \<open>if( std::abs(vx_) < 0.1 ) { vx_ = 0.0; }\<close>.\<close>

definition dead_zone :: "real \<Rightarrow> real" where
  "dead_zone vx = (if \<bar>vx\<bar> < 1 / 10 then 0 else vx)"

text \<open>\<open>velocityCommands(const double &vx, const double &wz)\<close>.\<close>

definition velocityCommands :: "DiffDrive \<Rightarrow> real \<Rightarrow> real \<Rightarrow> DiffDrive" where
  "velocityCommands d vx wz =
     (let vx' = dead_zone vx
      in if \<bar>wz\<bar> < epsilon
         then d\<lparr> radius := 0, speed := 1000 * vx' \<rparr>
         else
           let d1 = d\<lparr> radius := vx' * 1000 / wz \<rparr>
           in if \<bar>vx'\<bar> < epsilon \<or> \<bar>radius d1\<bar> \<le> 1
              then
                let s0 = 1000 * bias d1 * wz / 2;
                    s1 = (if \<bar>s0\<bar> < 50 then (if s0 > 0 then 50 else - 50) else s0)
                in d1\<lparr> speed := s1, radius := 1 \<rparr>
              else if radius d1 > 0
                then d1\<lparr> speed := (radius d1 + 1000 * bias d1 / 2) * wz \<rparr>
                else d1\<lparr> speed := (radius d1 - 1000 * bias d1 / 2) * wz \<rparr>)"

text \<open>\<open>velocityCommands(const short &cmd_speed, const short &cmd_radius)\<close>.\<close>

definition velocityCommands_raw :: "DiffDrive \<Rightarrow> 16 word \<Rightarrow> 16 word \<Rightarrow> DiffDrive" where
  "velocityCommands_raw d cmd_speed cmd_radius =
     d\<lparr> speed := real_of_int (sint cmd_speed), radius := real_of_int (sint cmd_radius) \<rparr>"

text \<open>\<open>velocityCommands()\<close>: the vector \<open>{bound(speed), bound(radius)}\<close>.\<close>

definition velocityCommands_get :: "DiffDrive \<Rightarrow> 16 word list" where
  "velocityCommands_get d = [bound (speed d), bound (radius d)]"

subsection \<open>The specification's wrapped difference\<close>

text \<open>The formula of the specification, on the unsigned readings of two samples.\<close>

definition wrapped_delta_spec :: "16 word \<Rightarrow> 16 word \<Rightarrow> int" where
  "wrapped_delta_spec prv cur = ((uint cur - uint prv + 32768) mod 65536) - 32768"

section \<open>Properties\<close>

section \<open>Properties\<close>

subsection \<open>The wrapped difference\<close>

lemma mask16: "(k::int) AND 0xffff = take_bit 16 k"
  by (simp add: take_bit_eq_mask mask_eq_exp_minus_1)

lemma diff_ticks_eq_sint: "diff_ticks cur prv = sint (cur - prv)"
proof -
  have "(word_of_int (take_bit 16 (uint cur - uint prv)) :: 16 word) = word_of_int (uint cur - uint prv)"
    by (rule word_of_int_eq_iff [THEN iffD2]) simp
  also have "\<dots> = cur - prv" by simp
  finally show ?thesis by (simp add: diff_ticks_def mask16)
qed

lemma sint16_spec: "sint (w :: 16 word) = ((uint w + 32768) mod 65536) - 32768"
  by (simp add: sint_uint signed_take_bit_eq_take_bit_shift take_bit_eq_mod)

lemma diff_ticks_spec: "diff_ticks cur prv = wrapped_delta_spec prv cur"
proof -
  have "uint (cur - prv) = (uint cur - uint prv) mod 65536"
    by (simp add: uint_word_ariths)
  then have "sint (cur - prv) = (((uint cur - uint prv) mod 65536 + 32768) mod 65536) - 32768"
    by (simp add: sint16_spec)
  also have "\<dots> = ((uint cur - uint prv + 32768) mod 65536) - 32768"
    by (simp add: mod_add_left_eq)
  finally show ?thesis by (simp add: diff_ticks_eq_sint wrapped_delta_spec_def)
qed

lemma diff_ticks_zero_iff: "diff_ticks cur prv = 0 \<longleftrightarrow> cur = prv"
  by (simp add: diff_ticks_eq_sint signed_eq_0_iff)

lemma diff_ticks_self: "diff_ticks w w = 0"
  by (simp add: diff_ticks_zero_iff)

subsection \<open>What update computes\<close>

lemma update_state_fields:
  "last_tick_left (update_state kin g d ts l r) = l"
  "last_tick_right (update_state kin g d ts l r) = r"
  "last_rad_left (update_state kin g d ts l r) =
     last_rad_left d + tick_to_rad d * real_of_int (left_diff_ticks g d l)"
  "last_rad_right (update_state kin g d ts l r) =
     last_rad_right d + tick_to_rad d * real_of_int (right_diff_ticks g d r)"
  "last_timestamp (update_state kin g d ts l r) = ts"
  "bias (update_state kin g d ts l r) = bias d"
  "tick_to_rad (update_state kin g d ts l r) = tick_to_rad d"
  by (simp_all add: update_state_def update_def Let_def right_diff_ticks_def)

lemma update_state_time:
  "last_diff_time (update_state kin g d ts l r) =
     (if ts \<noteq> last_timestamp d then real_of_int (diff_ticks ts (last_timestamp d)) / 1000
      else last_diff_time d)"
  by (simp add: update_state_def update_def Let_def)

lemma update_state_velocity:
  "last_velocity_left (update_state kin g d ts l r) =
     (if ts \<noteq> last_timestamp d
      then tick_to_rad d * real_of_int (left_diff_ticks g d l)
             / (real_of_int (diff_ticks ts (last_timestamp d)) / 1000)
      else last_velocity_left d)"
  "last_velocity_right (update_state kin g d ts l r) =
     (if ts \<noteq> last_timestamp d
      then tick_to_rad d * real_of_int (right_diff_ticks g d r)
             / (real_of_int (diff_ticks ts (last_timestamp d)) / 1000)
      else last_velocity_right d)"
  by (simp_all add: update_state_def update_def Let_def right_diff_ticks_def)

lemma update_pose_eq:
  "update_pose kin g d ts l r =
     kin (tick_to_rad d * real_of_int (left_diff_ticks g d l))
         (tick_to_rad d * real_of_int (right_diff_ticks g d r))"
  by (simp add: update_pose_def update_def Let_def right_diff_ticks_def)

lemma update_rates_eq:
  "update_rates kin g d ts l r =
     (div_double (fst (update_pose kin g d ts l r)) (last_diff_time (update_state kin g d ts l r)),
      div_double (fst (snd (update_pose kin g d ts l r))) (last_diff_time (update_state kin g d ts l r)),
      div_double (snd (snd (update_pose kin g d ts l r))) (last_diff_time (update_state kin g d ts l r)))"
  by (simp add: update_rates_def update_pose_def update_state_def update_def Let_def)

lemma update_statics_eq:
  "update_statics kin g d ts l r = g\<lparr> init_l := True, init_r := True \<rparr>"
  by (simp add: update_statics_def update_def Let_def)

text \<open>The division inside the timestamp guard never has a zero divisor.\<close>

lemma update_guarded_divisor_nonzero:
  "ts \<noteq> last_timestamp d \<Longrightarrow> real_of_int (diff_ticks ts (last_timestamp d)) / 1000 \<noteq> 0"
  by (simp add: diff_ticks_zero_iff)

text \<open>The rates are a division by zero exactly when the timestamp is the stored one
  and the stored elapsed time is zero.\<close>

lemma update_rates_undefined_iff:
  "update_rates kin g d ts l r = (None, None, None)
     \<longleftrightarrow> ts = last_timestamp d \<and> last_diff_time d = 0"
  by (simp add: update_rates_eq update_state_time div_double_def diff_ticks_zero_iff)

text \<open>No member function writes the kinematic parameters.\<close>

lemma parameters_preserved:
  "bias (update_state kin g d ts l r) = bias d"
  "bias (reset d) = bias d"
  "bias (setVelocityCommands d vx wz) = bias d"
  "bias (velocityCommands d vx wz) = bias d"
  "bias (velocityCommands_raw d s c) = bias d"
  "tick_to_rad (update_state kin g d ts l r) = tick_to_rad d"
  "tick_to_rad (reset d) = tick_to_rad d"
  by (simp_all add: update_state_fields reset_def setVelocityCommands_def
      velocityCommands_def velocityCommands_raw_def Let_def)

text \<open>
  Claim C1. The tick difference of each wheel and the timestamp difference that
  \<open>update\<close> computes are the signed 16-bit wrap-around difference
  \<open>((curr - prev + 32768) mod 65536) - 32768\<close> of the current sample and the baseline.
  The baseline of a wheel is the stored tick, or the current tick when the wheel's flag is
  not yet set; the difference enters the accumulated angle and the pose update scaled by
  \<open>tick_to_rad\<close>. The timestamp difference is computed when the timestamp differs from
  the stored one, and is stored divided by 1000.
\<close>

theorem update_wraparound_delta:
  "left_diff_ticks g d l = wrapped_delta_spec (if init_l g then last_tick_left d else l) l
   \<and> right_diff_ticks g d r = wrapped_delta_spec (if init_r g then last_tick_right d else r) r
   \<and> last_rad_left (update_state kin g d ts l r) =
       last_rad_left d + tick_to_rad d *
         real_of_int (wrapped_delta_spec (if init_l g then last_tick_left d else l) l)
   \<and> last_rad_right (update_state kin g d ts l r) =
       last_rad_right d + tick_to_rad d *
         real_of_int (wrapped_delta_spec (if init_r g then last_tick_right d else r) r)
   \<and> update_pose kin g d ts l r =
       kin (tick_to_rad d * real_of_int (wrapped_delta_spec (if init_l g then last_tick_left d else l) l))
           (tick_to_rad d * real_of_int (wrapped_delta_spec (if init_r g then last_tick_right d else r) r))
   \<and> (ts \<noteq> last_timestamp d \<longrightarrow>
        last_diff_time (update_state kin g d ts l r) =
          real_of_int (wrapped_delta_spec (last_timestamp d) ts) / 1000)"
proof -
  have L: "left_diff_ticks g d l = wrapped_delta_spec (if init_l g then last_tick_left d else l) l"
    by (simp add: left_diff_ticks_def diff_ticks_spec)
  have R: "right_diff_ticks g d r = wrapped_delta_spec (if init_r g then last_tick_right d else r) r"
    by (simp add: right_diff_ticks_def diff_ticks_spec)
  have T: "ts \<noteq> last_timestamp d \<Longrightarrow>
        last_diff_time (update_state kin g d ts l r) =
          real_of_int (wrapped_delta_spec (last_timestamp d) ts) / 1000"
    by (simp add: update_state_time diff_ticks_spec)
  show ?thesis
    using T by (simp only: update_state_fields update_pose_eq L R) simp
qed

theorem update_wraparound_delta_witness:
  "(5 :: 16 word) \<noteq> last_timestamp ((DiffDrive_new 65530 1)\<lparr> last_tick_left := 65530, last_tick_right := 3 \<rparr>)
   \<and> left_diff_ticks \<lparr> init_l = True, init_r = True \<rparr>
        ((DiffDrive_new 65530 1)\<lparr> last_tick_left := 65530, last_tick_right := 3 \<rparr>) 5 = 11
   \<and> right_diff_ticks \<lparr> init_l = True, init_r = True \<rparr>
        ((DiffDrive_new 65530 1)\<lparr> last_tick_left := 65530, last_tick_right := 3 \<rparr>) 65533 = - 6
   \<and> last_diff_time (update_state (\<lambda>a b. (a, 0, b)) \<lparr> init_l = True, init_r = True \<rparr>
        ((DiffDrive_new 65530 1)\<lparr> last_tick_left := 65530, last_tick_right := 3 \<rparr>) 5 5 65533) = 11 / 1000"
  using update_wraparound_delta [of "\<lparr> init_l = True, init_r = True \<rparr>"
      "(DiffDrive_new 65530 1)\<lparr> last_tick_left := 65530, last_tick_right := 3 \<rparr>" 5 65533
      "\<lambda>a b. (a, 0, b)" 5]
  by (simp add: wrapped_delta_spec_def DiffDrive_new_def)

text \<open>
  The first call of \<open>update\<close> in the process, with both flags unset, takes the supplied
  ticks as baselines and reports no movement, whatever the ticks are.
\<close>

lemma update_first_call_in_process:
  "left_diff_ticks statics_start d l = 0
   \<and> right_diff_ticks statics_start d r = 0
   \<and> last_tick_left (update_state kin statics_start d ts l r) = l
   \<and> last_tick_right (update_state kin statics_start d ts l r) = r
   \<and> last_rad_left (update_state kin statics_start d ts l r) = last_rad_left d
   \<and> last_rad_right (update_state kin statics_start d ts l r) = last_rad_right d
   \<and> update_pose kin statics_start d ts l r = kin 0 0"
  by (simp add: update_state_fields update_pose_eq left_diff_ticks_def right_diff_ticks_def
      statics_start_def diff_ticks_self)

text \<open>
  Claim C2. The claim is that the first \<open>update\<close> of every freshly constructed object
  takes the supplied ticks as baselines and yields a zero tick difference. The flags are
  shared by all objects: once any object has been updated, the first \<open>update\<close> of a
  second, freshly constructed object measures its ticks from the constructor's baseline 0.
  With a left tick of 100 the left difference is 100, the accumulated left angle is
  \<open>100 * tick_to_rad = 9619925 / 134217728\<close> (about 0.0716740) and the kinematics is
  called with that angle.
\<close>

theorem update_second_object_not_seeded:
  "left_diff_ticks (update_statics kin statics_start (DiffDrive_new t0 e0) ts l r)
      (DiffDrive_new t1 e1) 100 = 100
   \<and> last_rad_left (update_state kin
        (update_statics kin statics_start (DiffDrive_new t0 e0) ts l r)
        (DiffDrive_new t1 e1) ts' 100 0) = tick_to_rad (DiffDrive_new t1 e1) * 100
   \<and> tick_to_rad (DiffDrive_new t1 e1) * 100 = 9619925 / 134217728
   \<and> update_pose kin
        (update_statics kin statics_start (DiffDrive_new t0 e0) ts l r)
        (DiffDrive_new t1 e1) ts' 100 0 = kin (tick_to_rad (DiffDrive_new t1 e1) * 100) 0"
proof -
  have D: "diff_ticks 100 0 = 100" "diff_ticks 0 0 = 0"
    by (simp_all add: diff_ticks_eq_sint)
  show ?thesis
    by (simp add: update_state_fields update_pose_eq update_statics_eq left_diff_ticks_def
        right_diff_ticks_def D DiffDrive_new_def)
qed

text \<open>
  Claim C3. The claim is that the division of the pose update by the elapsed time is
  guarded against a zero elapsed time. The division is outside the timestamp guard: on
  an object whose storage was zero (\<open>last_timestamp = 0\<close>, \<open>last_diff_time = 0.0\<close>) a
  first \<open>update\<close> with timestamp 0 divides all three components by \<open>0.0\<close>.
\<close>

theorem update_rates_divide_by_zero:
  "update_rates kin g (DiffDrive_new 0 0) 0 l r = (None, None, None)"
  by (simp add: update_rates_eq update_state_time div_double_def DiffDrive_new_def)

text \<open>
  Claim C9. When the timestamp of a call equals the stored timestamp, the stored elapsed
  time and both wheel velocities, as \<open>getWheelJointStates\<close> reads them, are unchanged,
  and the pose update is still computed from the tick differences of the call.
\<close>

theorem update_same_timestamp:
  "ts = last_timestamp d \<Longrightarrow>
     last_diff_time (update_state kin g d ts l r) = last_diff_time d
   \<and> last_velocity_left (update_state kin g d ts l r) = last_velocity_left d
   \<and> last_velocity_right (update_state kin g d ts l r) = last_velocity_right d
   \<and> fst (snd (getWheelJointStates (update_state kin g d ts l r))) = fst (snd (getWheelJointStates d))
   \<and> snd (snd (snd (getWheelJointStates (update_state kin g d ts l r))))
       = snd (snd (snd (getWheelJointStates d)))
   \<and> update_pose kin g d ts l r =
       kin (tick_to_rad d * real_of_int (left_diff_ticks g d l))
           (tick_to_rad d * real_of_int (right_diff_ticks g d r))"
  by (simp add: update_state_time update_state_velocity update_pose_eq getWheelJointStates_def)

theorem update_same_timestamp_witness:
  "(7 :: 16 word) = last_timestamp ((DiffDrive_new 7 (1 / 50))\<lparr> last_velocity_left := 3, last_velocity_right := 4 \<rparr>)
   \<and> last_diff_time (update_state (\<lambda>a b. (a, 0, b)) \<lparr> init_l = True, init_r = True \<rparr>
        ((DiffDrive_new 7 (1 / 50))\<lparr> last_velocity_left := 3, last_velocity_right := 4 \<rparr>) 7 10 20) = 1 / 50
   \<and> last_velocity_left (update_state (\<lambda>a b. (a, 0, b)) \<lparr> init_l = True, init_r = True \<rparr>
        ((DiffDrive_new 7 (1 / 50))\<lparr> last_velocity_left := 3, last_velocity_right := 4 \<rparr>) 7 10 20) = 3
   \<and> last_velocity_right (update_state (\<lambda>a b. (a, 0, b)) \<lparr> init_l = True, init_r = True \<rparr>
        ((DiffDrive_new 7 (1 / 50))\<lparr> last_velocity_left := 3, last_velocity_right := 4 \<rparr>) 7 10 20) = 4
   \<and> update_pose (\<lambda>a b. (a, 0, b)) \<lparr> init_l = True, init_r = True \<rparr>
        ((DiffDrive_new 7 (1 / 50))\<lparr> last_velocity_left := 3, last_velocity_right := 4 \<rparr>) 7 10 20
       = (1923985 / 268435456, 0, 1923985 / 134217728)"
proof -
  have D: "diff_ticks 10 0 = 10" "diff_ticks 20 0 = 20"
    by (simp_all add: diff_ticks_eq_sint)
  show ?thesis
    using update_same_timestamp [of 7
      "(DiffDrive_new 7 (1 / 50))\<lparr> last_velocity_left := 3, last_velocity_right := 4 \<rparr>"
      "\<lambda>a b. (a, 0, b)" "\<lparr> init_l = True, init_r = True \<rparr>" 10 20]
    by (simp add: DiffDrive_new_def left_diff_ticks_def right_diff_ticks_def D)
qed

text \<open>
  Claim C8. \<open>reset\<close> sets the accumulated wheel angles and the wheel velocities to zero
  and leaves the tick baselines, the timestamp baseline and the elapsed time as they
  were: an \<open>update\<close> after it computes the same tick differences, pose update, rates and
  elapsed time as without the reset, and the angle it accumulates from zero is the tick
  difference from the baseline stored before the reset.
\<close>

theorem reset_keeps_baselines:
  "last_rad_left (reset d) = 0 \<and> last_rad_right (reset d) = 0
   \<and> last_velocity_left (reset d) = 0 \<and> last_velocity_right (reset d) = 0
   \<and> getWheelJointStates (reset d) = (0, 0, 0, 0)
   \<and> last_tick_left (reset d) = last_tick_left d
   \<and> last_tick_right (reset d) = last_tick_right d
   \<and> last_timestamp (reset d) = last_timestamp d
   \<and> last_diff_time (reset d) = last_diff_time d
   \<and> left_diff_ticks g (reset d) l = left_diff_ticks g d l
   \<and> right_diff_ticks g (reset d) r = right_diff_ticks g d r
   \<and> update_pose kin g (reset d) ts l r = update_pose kin g d ts l r
   \<and> update_rates kin g (reset d) ts l r = update_rates kin g d ts l r
   \<and> last_diff_time (update_state kin g (reset d) ts l r)
       = last_diff_time (update_state kin g d ts l r)
   \<and> last_rad_left (update_state kin g (reset d) ts l r)
       = tick_to_rad d * real_of_int (diff_ticks l (if init_l g then last_tick_left d else l))
   \<and> last_rad_right (update_state kin g (reset d) ts l r)
       = tick_to_rad d * real_of_int (diff_ticks r (if init_r g then last_tick_right d else r))"
proof -
  have F: "last_tick_left (reset d) = last_tick_left d" "last_tick_right (reset d) = last_tick_right d"
    "last_timestamp (reset d) = last_timestamp d" "last_diff_time (reset d) = last_diff_time d"
    "tick_to_rad (reset d) = tick_to_rad d"
    "last_rad_left (reset d) = 0" "last_rad_right (reset d) = 0"
    "last_velocity_left (reset d) = 0" "last_velocity_right (reset d) = 0"
    by (simp_all add: reset_def)
  have L: "left_diff_ticks g (reset d) l = left_diff_ticks g d l"
    and R: "right_diff_ticks g (reset d) r = right_diff_ticks g d r"
    by (simp_all add: left_diff_ticks_def right_diff_ticks_def F)
  have P: "update_pose kin g (reset d) ts l r = update_pose kin g d ts l r"
    by (simp add: update_pose_eq L R F)
  have T: "last_diff_time (update_state kin g (reset d) ts l r)
       = last_diff_time (update_state kin g d ts l r)"
    by (simp add: update_state_time F)
  have Q: "update_rates kin g (reset d) ts l r = update_rates kin g d ts l r"
    by (simp add: update_rates_eq P T)
  have A: "last_rad_left (update_state kin g (reset d) ts l r)
       = tick_to_rad d * real_of_int (diff_ticks l (if init_l g then last_tick_left d else l))"
    "last_rad_right (update_state kin g (reset d) ts l r)
       = tick_to_rad d * real_of_int (diff_ticks r (if init_r g then last_tick_right d else r))"
    by (simp_all add: update_state_fields F left_diff_ticks_def right_diff_ticks_def)
  show ?thesis
    by (simp add: F L R P T Q A getWheelJointStates_def)
qed

lemma reset_then_update_example:
  "last_rad_left (update_state kin \<lparr> init_l = True, init_r = True \<rparr>
      (reset ((DiffDrive_new 0 0)\<lparr> last_tick_left := 1000 \<rparr>)) 1 1010 0)
     = tick_to_rad (DiffDrive_new 0 0) * 10"
proof -
  have D: "diff_ticks 1010 1000 = 10"
    by (simp add: diff_ticks_eq_sint)
  show ?thesis
    by (simp add: update_state_fields left_diff_ticks_def reset_def D DiffDrive_new_def)
qed

subsection \<open>Velocity commands\<close>

text \<open>
  Claim C5. For \<open>|wz| < 1e-4\<close> the stored command becomes \<open>radius = 0\<close> and
  \<open>speed = 1000 * vx\<close>, where \<open>vx\<close> is replaced by 0 when \<open>|vx| < 0.1\<close>; the witness
  is the input \<open>vx = 1.0\<close>, \<open>wz = 0.00005\<close> with \<open>radius = 0\<close> and \<open>speed = 1000\<close>.
\<close>

theorem velocityCommands_straight:
  "\<bar>wz\<bar> < 1 / 10000 \<Longrightarrow>
     radius (velocityCommands d vx wz) = 0
   \<and> speed (velocityCommands d vx wz) = 1000 * (if \<bar>vx\<bar> < 1 / 10 then 0 else vx)"
  by (simp add: velocityCommands_def epsilon_def dead_zone_def Let_def)

theorem velocityCommands_straight_witness:
  "\<bar>5 / 100000 :: real\<bar> < 1 / 10000
   \<and> radius (velocityCommands (DiffDrive_new 0 0) 1 (5 / 100000)) = 0
   \<and> speed (velocityCommands (DiffDrive_new 0 0) 1 (5 / 100000)) = 1000"
  using velocityCommands_straight [of "5 / 100000" "DiffDrive_new 0 0" 1]
  by simp

text \<open>
  Claim C4. For \<open>|wz| \<ge> 1e-4\<close> and, after the dead-zone rewrite of \<open>vx\<close>,
  \<open>|vx| < 1e-4\<close> or \<open>|1000 * vx / wz| \<le> 1\<close>, the stored command becomes
  \<open>radius = 1\<close> and \<open>speed = 1000 * bias * wz / 2\<close>, raised in magnitude to 50 with its
  sign kept when its magnitude is below 50. The raw speed is not zero, and so has a sign
  to keep, when the wheel separation \<open>bias\<close> is not zero (the constructor sets 0.485 and
  nothing writes it). The witness is \<open>vx = 0\<close>, \<open>wz = 0.05\<close>: raw speed 12.125, stored
  speed 50.
\<close>

theorem velocityCommands_pivot:
  assumes "\<bar>wz\<bar> \<ge> 1 / 10000"
    and "\<bar>dead_zone vx\<bar> < 1 / 10000 \<or> \<bar>1000 * dead_zone vx / wz\<bar> \<le> 1"
  shows "radius (velocityCommands d vx wz) = 1
   \<and> speed (velocityCommands d vx wz) =
       (if \<bar>1000 * bias d * wz / 2\<bar> < 50
        then (if 1000 * bias d * wz / 2 > 0 then 50 else - 50)
        else 1000 * bias d * wz / 2)
   \<and> (bias d \<noteq> 0 \<longrightarrow>
        speed (velocityCommands d vx wz) =
          (if \<bar>1000 * bias d * wz / 2\<bar> < 50 then sgn (1000 * bias d * wz / 2) * 50
           else 1000 * bias d * wz / 2))"
proof -
  have nz: "1000 * bias d * wz / 2 \<noteq> 0" if "bias d \<noteq> 0"
    using assms(1) that by auto
  have br: "\<not> \<bar>wz\<bar> < epsilon" "\<bar>dead_zone vx\<bar> < epsilon \<or> \<bar>dead_zone vx * 1000 / wz\<bar> \<le> 1"
    using assms by (simp_all add: epsilon_def mult.commute)
  have "velocityCommands d vx wz =
      d\<lparr> radius := 1,
         speed := (if \<bar>1000 * bias d * wz / 2\<bar> < 50
                   then (if 1000 * bias d * wz / 2 > 0 then 50 else - 50)
                   else 1000 * bias d * wz / 2) \<rparr>"
    using br by (simp add: velocityCommands_def Let_def)
  then show ?thesis
    using nz by (simp add: sgn_if)
qed

theorem velocityCommands_pivot_witness:
  "\<bar>5 / 100 :: real\<bar> \<ge> 1 / 10000
   \<and> (\<bar>dead_zone 0\<bar> < 1 / 10000 \<or> \<bar>1000 * dead_zone 0 / (5 / 100)\<bar> \<le> 1)
   \<and> bias (DiffDrive_new 0 0) \<noteq> 0
   \<and> radius (velocityCommands (DiffDrive_new 0 0) 0 (5 / 100)) = 1
   \<and> speed (velocityCommands (DiffDrive_new 0 0) 0 (5 / 100)) = 50"
proof -
  have h1: "\<bar>5 / 100 :: real\<bar> \<ge> 1 / 10000" by simp
  have h2: "\<bar>dead_zone 0\<bar> < 1 / 10000 \<or> \<bar>1000 * dead_zone 0 / (5 / 100)\<bar> \<le> 1"
    by (simp add: dead_zone_def)
  have h3: "bias (DiffDrive_new 0 0) \<noteq> 0" by (simp add: DiffDrive_new_def)
  show ?thesis
    using h1 h2 h3 velocityCommands_pivot [OF h1 h2, of "DiffDrive_new 0 0"]
    by (simp add: DiffDrive_new_def)
qed

lemma velocityCommands_pivot_examples:
  "speed (velocityCommands (DiffDrive_new t e) 0 (1 / 2)) = 12125 / 100"
  "radius (velocityCommands (DiffDrive_new t e) 0 (1 / 2)) = 1"
  "speed (velocityCommands (DiffDrive_new t e) (5 / 100) 1) = 2425 / 10"
  "radius (velocityCommands (DiffDrive_new t e) (5 / 100) 1) = 1"
  by (simp_all add: velocityCommands_def Let_def dead_zone_def epsilon_def DiffDrive_new_def)

text \<open>
  Claim C6. In the general turn (\<open>|wz| \<ge> 1e-4\<close> and, after the dead-zone rewrite,
  \<open>|vx| \<ge> 1e-4\<close> and \<open>|1000 * vx / wz| > 1\<close>) the stored command becomes
  \<open>radius = 1000 * vx / wz\<close> and \<open>speed = (radius + sign(radius) * 1000 * bias / 2) * wz\<close>.
  The witness is \<open>vx = 0.5\<close>, \<open>wz = 0.3\<close> with \<open>bias = 0.485\<close>: the radius is
  \<open>5000 / 3\<close>, which is 1666.67 to two decimals, and the speed is 572.75.
\<close>

theorem velocityCommands_general_turn:
  assumes "\<bar>wz\<bar> \<ge> 1 / 10000"
    and "\<bar>dead_zone vx\<bar> \<ge> 1 / 10000"
    and "\<bar>1000 * dead_zone vx / wz\<bar> > 1"
  shows "radius (velocityCommands d vx wz) = 1000 * dead_zone vx / wz
   \<and> speed (velocityCommands d vx wz) =
       (1000 * dead_zone vx / wz + sgn (1000 * dead_zone vx / wz) * 1000 * bias d / 2) * wz"
proof -
  let ?r = "dead_zone vx * 1000 / wz"
  have br: "\<not> \<bar>wz\<bar> < epsilon" "\<not> (\<bar>dead_zone vx\<bar> < epsilon \<or> \<bar>?r\<bar> \<le> 1)"
    using assms by (simp_all add: epsilon_def mult.commute)
  have eq: "velocityCommands d vx wz =
      (if ?r > 0 then d\<lparr> radius := ?r, speed := (?r + 1000 * bias d / 2) * wz \<rparr>
       else d\<lparr> radius := ?r, speed := (?r - 1000 * bias d / 2) * wz \<rparr>)"
    using br by (simp add: velocityCommands_def Let_def)
  have rn: "?r \<noteq> 0" using br(2) by auto
  have rr: "1000 * dead_zone vx / wz = ?r" by (simp add: mult.commute)
  show ?thesis
    unfolding rr using rn by (simp add: eq sgn_if)
qed

theorem velocityCommands_general_turn_witness:
  "\<bar>3 / 10 :: real\<bar> \<ge> 1 / 10000
   \<and> \<bar>dead_zone (1 / 2)\<bar> \<ge> 1 / 10000
   \<and> \<bar>1000 * dead_zone (1 / 2) / (3 / 10)\<bar> > 1
   \<and> bias (DiffDrive_new 0 0) = 485 / 1000
   \<and> radius (velocityCommands (DiffDrive_new 0 0) (1 / 2) (3 / 10)) = 5000 / 3
   \<and> \<bar>radius (velocityCommands (DiffDrive_new 0 0) (1 / 2) (3 / 10)) - 166667 / 100\<bar> < 5 / 1000
   \<and> speed (velocityCommands (DiffDrive_new 0 0) (1 / 2) (3 / 10)) = 57275 / 100"
proof -
  have h1: "\<bar>3 / 10 :: real\<bar> \<ge> 1 / 10000" by simp
  have h2: "\<bar>dead_zone (1 / 2)\<bar> \<ge> 1 / 10000" by (simp add: dead_zone_def)
  have h3: "\<bar>1000 * dead_zone (1 / 2) / (3 / 10)\<bar> > 1" by (simp add: dead_zone_def)
  have dz: "dead_zone (1 / 2) = 1 / 2" by (simp add: dead_zone_def)
  show ?thesis
    using h1 h2 h3 velocityCommands_general_turn [OF h1 h2 h3, of "DiffDrive_new 0 0"]
    by (simp add: DiffDrive_new_def dz)
qed

subsection \<open>The bounded command\<close>

lemma sint_SHRT: "sint SHRT_MAX = 32767" "sint SHRT_MIN = - 32768"
  by (simp_all add: SHRT_MAX_def SHRT_MIN_def)

lemma truncate_range:
  assumes "- 32768 \<le> v" and "v \<le> 32767"
  shows "- 32768 \<le> truncate_double v \<and> truncate_double v \<le> 32767"
proof (cases "0 \<le> v")
  case True
  then have "0 \<le> \<lfloor>v\<rfloor>" by simp
  moreover have "\<lfloor>v\<rfloor> \<le> 32767" using assms(2) by (simp add: floor_le_iff)
  ultimately show ?thesis using True by (simp add: truncate_double_def)
next
  case False
  then have "\<lceil>v\<rceil> \<le> 0" by (simp add: ceiling_le_iff)
  moreover have "- 32768 \<le> \<lceil>v\<rceil>" using assms(1) by (simp add: le_ceiling_iff)
  ultimately show ?thesis using False by (simp add: truncate_double_def)
qed

lemma sint_word_of_int_16:
  assumes "- 32768 \<le> k" and "k \<le> 32767"
  shows "sint (word_of_int k :: 16 word) = k"
proof -
  have "signed_take_bit 15 k = k"
    by (rule signed_take_bit_int_eq_self) (use assms in simp_all)
  then show ?thesis by (simp add: sint_sbintrunc')
qed

lemma truncate_of_int: "truncate_double (real_of_int k) = k"
  by (simp add: truncate_double_def)

lemma truncate_close: "\<bar>real_of_int (truncate_double v)\<bar> \<le> \<bar>v\<bar> \<and> \<bar>v - real_of_int (truncate_double v)\<bar> < 1"
  by (simp add: truncate_double_def) linarith

lemma sint_bound:
  "sint (bound v) = (if v > 32767 then 32767 else if v < - 32768 then - 32768 else truncate_double v)"
proof -
  have "sint (word_of_int (truncate_double v) :: 16 word) = truncate_double v"
    if "\<not> v > 32767" "\<not> v < - 32768"
    using truncate_range [of v] that by (intro sint_word_of_int_16) simp_all
  then show ?thesis
    by (simp add: bound_def sint_SHRT)
qed

lemma bound_of_int:
  assumes "- 32768 \<le> k" and "k \<le> 32767"
  shows "bound (real_of_int k) = word_of_int k"
proof -
  have "\<not> real_of_int k > 32767" "\<not> real_of_int k < - 32768"
    using assms by linarith+
  then show ?thesis
    by (simp add: bound_def sint_SHRT truncate_of_int del: of_int_less_iff)
qed

text \<open>
  Claim C7. \<open>bound\<close> saturates to the signed 16-bit range and then truncates: it
  returns 32767 above 32767 (so for 40000), -32768 below -32768 (so for -40000), and
  otherwise the value with its fractional part discarded, which is the integer towards
  zero at distance less than 1; the command read by \<open>velocityCommands()\<close> is \<open>bound\<close> of
  the stored speed and of the stored radius.
\<close>

theorem bound_saturates_then_truncates:
  "sint (bound v) =
     (if v > 32767 then 32767 else if v < - 32768 then - 32768
      else if 0 \<le> v then \<lfloor>v\<rfloor> else \<lceil>v\<rceil>)
   \<and> (- 32768 \<le> v \<and> v \<le> 32767 \<longrightarrow>
        \<bar>real_of_int (sint (bound v))\<bar> \<le> \<bar>v\<bar> \<and> \<bar>v - real_of_int (sint (bound v))\<bar> < 1)
   \<and> bound 40000 = 32767 \<and> sint (bound 40000) = 32767
   \<and> bound (- 40000) = - 32768 \<and> sint (bound (- 40000)) = - 32768
   \<and> velocityCommands_get d = [bound (speed d), bound (radius d)]"
proof -
  have A: "sint (bound v) =
     (if v > 32767 then 32767 else if v < - 32768 then - 32768
      else if 0 \<le> v then \<lfloor>v\<rfloor> else \<lceil>v\<rceil>)"
    by (simp add: sint_bound truncate_double_def)
  have B: "\<bar>real_of_int (sint (bound v))\<bar> \<le> \<bar>v\<bar> \<and> \<bar>v - real_of_int (sint (bound v))\<bar> < 1"
    if "- 32768 \<le> v \<and> v \<le> 32767"
    using that truncate_close [of v] by (simp add: sint_bound)
  have C: "bound 40000 = 32767" "bound (- 40000) = - 32768"
    by (simp_all add: bound_def sint_SHRT SHRT_MAX_def SHRT_MIN_def)
  have D: "sint (bound 40000) = 32767" "sint (bound (- 40000)) = - 32768"
    by (simp_all add: sint_bound)
  show ?thesis
    using B by (simp only: A C D velocityCommands_get_def) simp
qed

theorem bound_saturates_then_truncates_witness:
  "(- 32768 \<le> (- 7 / 2 :: real) \<and> (- 7 / 2 :: real) \<le> 32767)
   \<and> sint (bound (- 7 / 2)) = - 3
   \<and> \<bar>real_of_int (sint (bound (- 7 / 2)))\<bar> \<le> \<bar>- 7 / 2 :: real\<bar>
   \<and> \<bar>(- 7 / 2 :: real) - real_of_int (sint (bound (- 7 / 2)))\<bar> < 1"
  using bound_saturates_then_truncates [of "- 7 / 2"]
  by simp

text \<open>
  Claim C10. Setting the command with a pair of 16-bit signed integers and reading the
  bounded command returns the same pair.
\<close>

theorem raw_command_roundtrip:
  "velocityCommands_get (velocityCommands_raw d s r) = [s, r]"
proof -
  have I: "bound (real_of_int (sint w)) = w" for w :: "16 word"
  proof -
    have "- 32768 \<le> sint w" using sint_ge [of w] by simp
    moreover have "sint w \<le> 32767" using sint_lt [of w] by simp
    ultimately have "bound (real_of_int (sint w)) = word_of_int (sint w)"
      by (rule bound_of_int)
    then show ?thesis by simp
  qed
  show ?thesis
    unfolding velocityCommands_get_def velocityCommands_raw_def
    by (simp add: I del: of_int_sint)
qed

end
